theory Spec2Isabelle
  imports Main
begin

section \<open>The Athena adapter (dbt/adapters/athena/impl.py)\<close>

text \<open>
  A shallow embedding of \<^verbatim>\<open>AthenaAdapter\<close>. Exceptions are values of type
  \<open>error\<close> and a fallible call returns \<open>error + 'a\<close> (\<open>Inl\<close> the exception).
  The remote services (Glue, S3, the SQL path of the base adapter) are collaborators:
  their answers are fields of an environment record, and every request the adapter
  issues is appended to the \<open>calls\<close> of an explicit world state.
\<close>

subsection \<open>Exceptions\<close>

datatype error =
    ClientError string "string option"
      \<comment> \<open>botocore's ClientError: \<^verbatim>\<open>e.response["Error"]["Code"]\<close> and
          \<^verbatim>\<open>e.response["Error"].get("Message")\<close>\<close>
  | RuntimeException string  \<comment> \<open>dbt.exceptions.RuntimeException\<close>
  | ValueError string
  | KeyError string
  | UnboundLocalError string
  | OtherError string  \<comment> \<open>any other exception a collaborator raises\<close>

subsection \<open>Data\<close>

datatype RelationType = Table | View

record credentials =
  s3_data_dir :: "string option"
  s3_staging_dir :: string
  s3_data_naming :: string

text \<open>
  A Glue column, storage descriptor, table and partition. A key the code reads with
  \<^verbatim>\<open>d["k"]\<close> in every place is a plain field; a key it reads with
  \<^verbatim>\<open>d.get("k", default)\<close> somewhere is optional, and reading it with
  \<^verbatim>\<open>d["k"]\<close> when absent is a KeyError. \<open>tbl_CreateTime\<close> and
  \<open>tbl_UpdateTime\<close> hold the timestamp as \<^verbatim>\<open>str\<close> renders it.
\<close>

record glue_column =
  col_Name :: string
  col_Type :: string
  col_Comment :: "string option"

record storage_descriptor =
  sd_Columns :: "glue_column list"
  sd_Location :: "string option"
  sd_Compressed :: bool

record glue_table =
  tbl_Name :: string
  tbl_TableType :: string
  tbl_StorageDescriptor :: storage_descriptor
  tbl_PartitionKeys :: "glue_column list"
  tbl_Description :: "string option"
  tbl_Owner :: "string option"
  tbl_CreateTime :: "string option"
  tbl_UpdateTime :: "string option"
  tbl_CreatedBy :: string

record glue_partition =
  part_Values :: "string list"
  part_StorageDescriptor :: storage_descriptor

record quote_policy =
  qp_database :: bool
  qp_schema :: bool
  qp_identifier :: bool

text \<open>What \<^verbatim>\<open>AthenaRelation.create\<close> is given.\<close>

record relation =
  rel_database :: string
  rel_schema :: string
  rel_identifier :: string
  rel_quote_policy :: quote_policy
  rel_type :: RelationType
  column_information :: "glue_column list"

record information_schema =
  database :: string

text \<open>The keyword arguments of a \<^verbatim>\<open>get_tables\<close> request.\<close>

record query_params =
  DatabaseName :: string
  MaxResults :: nat
  CatalogId :: "string option"

subsection \<open>Remote calls and the world\<close>

datatype call =
    GlueGetTables query_params  \<comment> \<open>one page request of the get_tables paginator\<close>
  | GlueGetTable string string  \<comment> \<open>DatabaseName, Name\<close>
  | GlueGetPartitions string string string  \<comment> \<open>DatabaseName, TableName, Expression\<close>
  | S3Delete string string
      \<comment> \<open>\<^verbatim>\<open>Bucket(bucket).objects.filter(Prefix=prefix).delete()\<close>\<close>
  | SQLListSchemas string  \<comment> \<open>the base adapter's list_schemas\<close>
  | SQLListRelations string string
      \<comment> \<open>the base adapter's list_relations_without_caching: database, schema\<close>
  | ExecuteMacro string  \<comment> \<open>execute_macro: the macro's name\<close>

text \<open>
  The world: the requests issued so far, oldest first, and the number of identifiers
  \<^verbatim>\<open>uuid4\<close> has handed out.
\<close>

record world =
  calls :: "call list"
  uuid_count :: nat

definition remote :: "call \<Rightarrow> world \<Rightarrow> world" where
  "remote c w = w\<lparr>calls := calls w @ [c]\<rparr>"

fun is_S3Delete :: "call \<Rightarrow> bool" where
  "is_S3Delete (S3Delete b k) = True"
| "is_S3Delete c = False"

fun is_SQL :: "call \<Rightarrow> bool" where
  "is_SQL (SQLListSchemas d) = True"
| "is_SQL (SQLListRelations d s) = True"
| "is_SQL (ExecuteMacro m) = True"
| "is_SQL c = False"

fun is_Glue :: "call \<Rightarrow> bool" where
  "is_Glue (GlueGetTables q) = True"
| "is_Glue (GlueGetTable d n) = True"
| "is_Glue (GlueGetPartitions d t e) = True"
| "is_Glue c = False"

text \<open>
  A value of a catalog row: a string, a boolean, an index, a relation type, or the
  list of partition-key columns.
\<close>

datatype pyval =
    PStr string
  | PBool bool
  | PInt int
  | PRel RelationType
  | PCols "glue_column list"

text \<open>
  The collaborators. \<open>glue_get_tables\<close> gives, for a request, the outcome of each
  page in the order the paginator fetches them; \<open>uuid4 n\<close> is the text of the
  \<open>n\<close>-th identifier \<^verbatim>\<open>uuid4()\<close> returns; \<open>str_lower\<close> is Python's
  \<^verbatim>\<open>str.lower\<close>. \<open>'t\<close> is agate's table and \<open>'m\<close> the manifest.
\<close>

record ('t, 'm) env =
  glue_get_tables :: "query_params \<Rightarrow> (error + glue_table list) list"
  glue_get_table :: "string \<Rightarrow> string \<Rightarrow> error + glue_table option"
  glue_get_partitions :: "string \<Rightarrow> string \<Rightarrow> string \<Rightarrow> error + glue_partition list"
  s3_delete :: "string \<Rightarrow> string \<Rightarrow> error + unit"
  list_schemas :: "string \<Rightarrow> error + string list"
  super_list_relations :: "relation \<Rightarrow> error + relation list"
  execute_macro :: "string \<Rightarrow> information_schema \<Rightarrow> string set \<Rightarrow> 'm \<Rightarrow> error + 't"
  GET_CATALOG_MACRO_NAME :: string
  table_from_rows :: "pyval list list \<Rightarrow> string list option \<Rightarrow> string list option \<Rightarrow> 't"
  catalog_filter_table :: "'t \<Rightarrow> 'm \<Rightarrow> 't"
  get_used_schemas :: "'m \<Rightarrow> (string \<times> string) list"
  str_lower :: "string \<Rightarrow> string"
  uuid4 :: "nat \<Rightarrow> string"

subsection \<open>Storage locations\<close>

definition s3_table_prefix :: "credentials \<Rightarrow> string" where
  "s3_table_prefix creds =
     (case s3_data_dir creds of
        Some d \<Rightarrow> d
      | None \<Rightarrow> s3_staging_dir creds @ ''tables/'')"

definition s3_uuid_table_location ::
  "('t, 'm) env \<Rightarrow> credentials \<Rightarrow> world \<Rightarrow> string \<times> world" where
  "s3_uuid_table_location env creds w =
     (s3_table_prefix creds @ uuid4 env (uuid_count w) @ ''/'',
      w\<lparr>uuid_count := Suc (uuid_count w)\<rparr>)"

definition s3_schema_table_location :: "credentials \<Rightarrow> string \<Rightarrow> string \<Rightarrow> string" where
  "s3_schema_table_location creds schema_name table_name =
     s3_table_prefix creds @ schema_name @ ''/'' @ table_name @ ''/''"

definition s3_table_location ::
  "('t, 'm) env \<Rightarrow> credentials \<Rightarrow> string \<Rightarrow> string \<Rightarrow> world \<Rightarrow> (error + string) \<times> world" where
  "s3_table_location env creds schema_name table_name w =
     (if s3_data_naming creds = ''schema_table''
      then (Inr (s3_schema_table_location creds schema_name table_name), w)
      else if s3_data_naming creds = ''uuid''
      then (case s3_uuid_table_location env creds w of (p, w') \<Rightarrow> (Inr p, w'))
      else (Inl (ValueError (''Unknown value for s3_data_naming: '' @ s3_data_naming creds)), w))"

definition has_s3_data_dir :: "credentials \<Rightarrow> bool" where
  "has_s3_data_dir creds = (s3_data_dir creds \<noteq> None)"

subsection \<open>Retrieving tables through the Glue API\<close>

text \<open>
  \<^verbatim>\<open>_retrieve_glue_tables\<close> is a generator. What it does when it is driven to
  its end is a list of steps: a page request, a table handed to the consumer, or an
  exception. The consumer's loop stops at the first exception, its own or the
  generator's, so the steps after that point never happen.
\<close>

datatype 'a step = Remote call | Yield 'a | Raise error

fun paginate :: "query_params \<Rightarrow> (error + glue_table list) list \<Rightarrow> glue_table step list" where
  "paginate q [] = []"
| "paginate q (Inl e # pages) = [Remote (GlueGetTables q), Raise e]"
| "paginate q (Inr table_list # pages) =
     Remote (GlueGetTables q) # map Yield table_list @ paginate q pages"

definition retrieve_glue_tables ::
  "('t, 'm) env \<Rightarrow> string \<Rightarrow> string \<Rightarrow> glue_table step list" where
  "retrieve_glue_tables env catalog_id name =
     (if catalog_id = [] then [Raise (RuntimeException ''Glue GetTables: Need catalog id'')]
      else if name = [] then [Raise (RuntimeException ''Glue GetTables: Need database name'')]
      else
        (let query_params =
               \<lparr>DatabaseName = name, MaxResults = 50,
                CatalogId = (if catalog_id \<noteq> ''awsdatacatalog'' then Some catalog_id else None)\<rparr>
         in paginate query_params (glue_get_tables env query_params)))"

definition get_rel_type_from_glue_response :: "glue_table \<Rightarrow> error + RelationType" where
  "get_rel_type_from_glue_response t =
     (if tbl_TableType t = ''VIRTUAL_VIEW'' then Inr View
      else if tbl_TableType t = ''EXTERNAL_TABLE'' then Inr Table
      else Inl (RuntimeException
                  (''Unknown table type '' @ tbl_TableType t @ '' for '' @ tbl_Name t)))"

subsection \<open>Listing relations\<close>

text \<open>The body of the loop of \<^verbatim>\<open>list_relations_without_caching\<close>.\<close>

definition relation_of_table :: "relation \<Rightarrow> glue_table \<Rightarrow> error + relation" where
  "relation_of_table schema_relation t =
     (case get_rel_type_from_glue_response t of
        Inl e \<Rightarrow> Inl e
      | Inr rt \<Rightarrow>
          Inr \<lparr>rel_database = rel_database schema_relation,
               rel_schema = rel_schema schema_relation,
               rel_identifier = tbl_Name t,
               rel_quote_policy = \<lparr>qp_database = True, qp_schema = True, qp_identifier = True\<rparr>,
               rel_type = rt,
               column_information = sd_Columns (tbl_StorageDescriptor t) @ tbl_PartitionKeys t\<rparr>)"

fun relations_loop ::
  "relation \<Rightarrow> relation list \<Rightarrow> world \<Rightarrow> glue_table step list \<Rightarrow> (error + relation list) \<times> world" where
  "relations_loop sr relations w [] = (Inr relations, w)"
| "relations_loop sr relations w (Remote c # steps) = relations_loop sr relations (remote c w) steps"
| "relations_loop sr relations w (Raise e # steps) = (Inl e, w)"
| "relations_loop sr relations w (Yield t # steps) =
     (case relation_of_table sr t of
        Inl e \<Rightarrow> (Inl e, w)
      | Inr r \<Rightarrow> relations_loop sr (relations @ [r]) w steps)"

definition list_relations_without_caching ::
  "('t, 'm) env \<Rightarrow> relation \<Rightarrow> world \<Rightarrow> (error + relation list) \<times> world" where
  "list_relations_without_caching env schema_relation w =
     (case relations_loop schema_relation [] w
             (retrieve_glue_tables env (rel_database schema_relation) (rel_schema schema_relation)) of
        (Inr relations, w') \<Rightarrow> (Inr relations, w')
      | (Inl e, w') \<Rightarrow>
          (case e of
             ClientError code msg \<Rightarrow>
               (super_list_relations env schema_relation,
                remote (SQLListRelations (rel_database schema_relation) (rel_schema schema_relation)) w')
           | _ \<Rightarrow> (Inl e, w')))"

subsection \<open>The catalog\<close>

text \<open>
  A catalog row is a Python dict, whose keys keep the order of their first insertion:
  an association list. \<open>dict_setitem\<close> is \<^verbatim>\<open>d[k] = v\<close> and \<open>dict_update\<close> is
  \<^verbatim>\<open>d.update(other)\<close>.
\<close>

type_synonym row = "(string \<times> pyval) list"

fun dict_setitem :: "('k \<times> 'v) list \<Rightarrow> 'k \<Rightarrow> 'v \<Rightarrow> ('k \<times> 'v) list" where
  "dict_setitem [] k v = [(k, v)]"
| "dict_setitem ((k', v') # d) k v =
     (if k' = k then (k', v) # d else (k', v') # dict_setitem d k v)"

fun dict_update :: "('k \<times> 'v) list \<Rightarrow> ('k \<times> 'v) list \<Rightarrow> ('k \<times> 'v) list" where
  "dict_update d [] = d"
| "dict_update d ((k, v) # other) = dict_update (dict_setitem d k v) other"

fun dict_get :: "('k \<times> 'v) list \<Rightarrow> 'k \<Rightarrow> 'v option" where
  "dict_get [] k = None"
| "dict_get ((k', v') # d) k = (if k' = k then Some v' else dict_get d k)"

definition create_stats_dict :: "string \<Rightarrow> pyval \<Rightarrow> string \<Rightarrow> bool \<Rightarrow> row" where
  "create_stats_dict label val description include =
     [(''stats:'' @ label @ '':label'', PStr label),
      (''stats:'' @ label @ '':value'', val),
      (''stats:'' @ label @ '':description'', PStr description),
      (''stats:'' @ label @ '':include'', PBool include)]"

definition get_default :: "string option \<Rightarrow> string \<Rightarrow> string" where
  "get_default v d = (case v of Some x \<Rightarrow> x | None \<Rightarrow> d)"

definition table_row_of :: "string \<Rightarrow> string \<Rightarrow> glue_table \<Rightarrow> RelationType \<Rightarrow> row" where
  "table_row_of target_database schema t rt =
     (let r0 = [(''table_database'', PStr target_database),
                (''table_schema'', PStr schema),
                (''table_name'', PStr (tbl_Name t)),
                (''table_type'', PRel rt)];
          descriptor = tbl_StorageDescriptor t;
          r1 = dict_update r0 (create_stats_dict ''description''
                 (PStr (get_default (tbl_Description t) [])) ''Table description'' True);
          r2 = dict_update r1 (create_stats_dict ''owner''
                 (PStr (get_default (tbl_Owner t) [])) ''Table owner'' True);
          r3 = dict_update r2 (create_stats_dict ''created_at''
                 (PStr (get_default (tbl_CreateTime t) [])) ''Table creation time'' True);
          r4 = dict_update r3 (create_stats_dict ''updated_at''
                 (PStr (get_default (tbl_UpdateTime t) [])) ''Table update time'' True);
          r5 = dict_update r4 (create_stats_dict ''created_by''
                 (PStr (tbl_CreatedBy t)) ''Who create it'' True);
          r6 = dict_update r5 (create_stats_dict ''partitions''
                 (PCols (tbl_PartitionKeys t)) ''Partition keys'' True);
          r7 = dict_update r6 (create_stats_dict ''location''
                 (PStr (get_default (sd_Location descriptor) [])) ''Table path'' True)
      in dict_update r7 (create_stats_dict ''compressed''
           (PBool (sd_Compressed descriptor)) ''Table has compressed or not'' True))"

definition column_row :: "row \<Rightarrow> nat \<Rightarrow> glue_column \<Rightarrow> row" where
  "column_row table_row idx col =
     dict_update table_row
       [(''column_name'', PStr (col_Name col)),
        (''column_type'', PStr (col_Type col)),
        (''column_index'', PInt (int idx)),
        (''column_comment'', PStr (get_default (col_Comment col) []))]"

text \<open>The body of the loop over the tables of \<^verbatim>\<open>_get_one_catalog\<close>.\<close>

definition catalog_rows_of_table :: "string \<Rightarrow> string \<Rightarrow> glue_table \<Rightarrow> error + row list" where
  "catalog_rows_of_table target_database schema t =
     (case get_rel_type_from_glue_response t of
        Inl e \<Rightarrow> Inl e
      | Inr rt \<Rightarrow>
          Inr (map (\<lambda>(idx, col). column_row (table_row_of target_database schema t rt) idx col)
                 (enumerate 0 (sd_Columns (tbl_StorageDescriptor t) @ tbl_PartitionKeys t))))"

fun tables_loop ::
  "string \<Rightarrow> string \<Rightarrow> row list \<Rightarrow> world \<Rightarrow> glue_table step list \<Rightarrow> (error + row list) \<times> world" where
  "tables_loop db schema rows w [] = (Inr rows, w)"
| "tables_loop db schema rows w (Remote c # steps) = tables_loop db schema rows (remote c w) steps"
| "tables_loop db schema rows w (Raise e # steps) = (Inl e, w)"
| "tables_loop db schema rows w (Yield t # steps) =
     (case catalog_rows_of_table db schema t of
        Inl e \<Rightarrow> (Inl e, w)
      | Inr new_rows \<Rightarrow> tables_loop db schema (rows @ new_rows) w steps)"

fun schemas_loop ::
  "('t, 'm) env \<Rightarrow> string \<Rightarrow> row list \<Rightarrow> world \<Rightarrow> string list \<Rightarrow> (error + row list) \<times> world" where
  "schemas_loop env db rows w [] = (Inr rows, w)"
| "schemas_loop env db rows w (schema # schemas) =
     (case tables_loop db schema rows w (retrieve_glue_tables env db schema) of
        (Inl e, w') \<Rightarrow> (Inl e, w')
      | (Inr rows', w') \<Rightarrow> schemas_loop env db rows' w' schemas)"

text \<open>
  The working schemas: \<open>lower\<close> is Python's \<^verbatim>\<open>str.lower\<close>, \<open>used\<close> what
  \<^verbatim>\<open>manifest.get_used_schemas()\<close> returns.
\<close>

definition target_schemas_of ::
  "(string \<Rightarrow> string) \<Rightarrow> (string \<times> string) list \<Rightarrow> string list \<Rightarrow> string list" where
  "target_schemas_of lower used schema_list =
     (let used_schemas = set (map (\<lambda>(d, s). lower s) used)
      in filter (\<lambda>x. lower x \<in> used_schemas) schema_list)"

text \<open>The body of the \<^verbatim>\<open>try\<close> of \<^verbatim>\<open>_get_one_catalog\<close>.\<close>

definition glue_catalog ::
  "('t, 'm) env \<Rightarrow> string \<Rightarrow> string list \<Rightarrow> 'm \<Rightarrow> world \<Rightarrow> (error + 't) \<times> world" where
  "glue_catalog env target_database target_schemas manifest w =
     (case schemas_loop env target_database [] w target_schemas of
        (Inl e, w') \<Rightarrow> (Inl e, w')
      | (Inr rows, w') \<Rightarrow>
          (if rows = [] then (Inr (table_from_rows env [] None None), w')
           else
             (let column_names = map fst (hd rows);
                  table = table_from_rows env (map (map snd) rows) (Some column_names)
                            (Some [''table_database'', ''table_schema'', ''table_name''])
              in (Inr (catalog_filter_table env table manifest), w'))))"

text \<open>The body of its \<^verbatim>\<open>except ClientError\<close>: the SQL path.\<close>

definition sql_catalog ::
  "('t, 'm) env \<Rightarrow> information_schema \<Rightarrow> string set \<Rightarrow> 'm \<Rightarrow> world \<Rightarrow> (error + 't) \<times> world" where
  "sql_catalog env info_schema schemas manifest w =
     (case execute_macro env (GET_CATALOG_MACRO_NAME env) info_schema schemas manifest of
        Inl e \<Rightarrow> (Inl e, remote (ExecuteMacro (GET_CATALOG_MACRO_NAME env)) w)
      | Inr table \<Rightarrow>
          (Inr (catalog_filter_table env table manifest),
           remote (ExecuteMacro (GET_CATALOG_MACRO_NAME env)) w))"

definition get_one_catalog ::
  "('t, 'm) env \<Rightarrow> information_schema \<Rightarrow> string set \<Rightarrow> 'm \<Rightarrow> world \<Rightarrow> (error + 't) \<times> world" where
  "get_one_catalog env info_schema schemas manifest w =
     (let target_database = database info_schema;
          used = get_used_schemas env manifest;
          w1 = remote (SQLListSchemas target_database) w
      in case list_schemas env target_database of
           Inl e \<Rightarrow> (Inl e, w1)
         | Inr schema_list \<Rightarrow>
             (case glue_catalog env target_database
                     (target_schemas_of (str_lower env) used schema_list) manifest w1 of
                (Inr table, w2) \<Rightarrow> (Inr table, w2)
              | (Inl e, w2) \<Rightarrow>
                  (case e of
                     ClientError code msg \<Rightarrow> sql_catalog env info_schema schemas manifest w2
                   | _ \<Rightarrow> (Inl e, w2))))"

subsection \<open>Cleaning up storage\<close>

text \<open>
  \<^verbatim>\<open>re.compile("s3://([^/]*)/(.*)").match(loc)\<close>: the groups when the pattern
  matches at the start of \<open>loc\<close>. The first group runs to the first slash after the
  scheme, the second from there to the end of the line, since a dot matches no newline.
\<close>

definition s3_location_match :: "string \<Rightarrow> (string \<times> string) option" where
  "s3_location_match loc =
     (if take 5 loc = ''s3://'' then
        (case dropWhile (\<lambda>c. c \<noteq> CHR ''/'') (drop 5 loc) of
           [] \<Rightarrow> None
         | slash # rest \<Rightarrow>
             Some (takeWhile (\<lambda>c. c \<noteq> CHR ''/'') (drop 5 loc),
                   takeWhile (\<lambda>c. c \<noteq> CHR 0x0A) rest))
      else None)"



text \<open>
  In \<^verbatim>\<open>clean_up_table\<close> the local \<^verbatim>\<open>table\<close> is assigned only when
  \<^verbatim>\<open>get_table\<close> returns. The handler returns for the code EntityNotFoundException
  alone; for any other code it ends without a return or a raise, and the read of
  \<^verbatim>\<open>table\<close> that follows is an UnboundLocalError.
\<close>

definition clean_up_table ::
  "('t, 'm) env \<Rightarrow> string \<Rightarrow> string \<Rightarrow> world \<Rightarrow> (error + unit) \<times> world" where
  "clean_up_table env database_name table_name w =
     (let w1 = remote (GlueGetTable database_name table_name) w
      in case glue_get_table env database_name table_name of
           Inl e \<Rightarrow>
             (case e of
                ClientError code msg \<Rightarrow>
                  (if code = ''EntityNotFoundException'' then (Inr (), w1)
                   else (Inl (UnboundLocalError ''table''), w1))
              | _ \<Rightarrow> (Inl e, w1))
         | Inr table \<Rightarrow>
             (case table of
                None \<Rightarrow> (Inr (), w1)
              | Some tbl \<Rightarrow>
                  (case sd_Location (tbl_StorageDescriptor tbl) of
                     None \<Rightarrow> (Inl (KeyError ''Location''), w1)
                   | Some loc \<Rightarrow>
                       (case s3_location_match loc of
                          None \<Rightarrow> (Inr (), w1)
                        | Some (bucket_name, prefix) \<Rightarrow>
                            (case s3_delete env bucket_name prefix of
                               Inl e \<Rightarrow> (Inl e, remote (S3Delete bucket_name prefix) w1)
                             | Inr u \<Rightarrow> (Inr (), remote (S3Delete bucket_name prefix) w1))))))"

section \<open>Notions for the statements\<close>


text \<open>
  The exception a step ends the consumer's loop with: the generator's own, or that of
  the classification of the table it yields. Both consumers classify the table first
  and raise nothing else. A list of steps passes when no step has one.
\<close>

fun step_error :: "glue_table step \<Rightarrow> error option" where
  "step_error (Remote c) = None"
| "step_error (Raise e) = Some e"
| "step_error (Yield t) =
     (case get_rel_type_from_glue_response t of Inl e \<Rightarrow> Some e | Inr rt \<Rightarrow> None)"

fun step_calls :: "'a step \<Rightarrow> call list" where
  "step_calls (Remote c) = [c]"
| "step_calls st = []"

fun step_tables :: "'a step \<Rightarrow> 'a list" where
  "step_tables (Yield t) = [t]"
| "step_tables st = []"

definition glue_steps :: "('t, 'm) env \<Rightarrow> string \<Rightarrow> string list \<Rightarrow> glue_table step list" where
  "glue_steps env db schemas = concat (map (retrieve_glue_tables env db) schemas)"

definition passes :: "glue_table step list \<Rightarrow> bool" where
  "passes steps = list_all (\<lambda>st. step_error st = None) steps"

text \<open>The relation the loop of \<^verbatim>\<open>list_relations_without_caching\<close> adds for a table.\<close>

definition relations_of_table :: "relation \<Rightarrow> glue_table \<Rightarrow> relation list" where
  "relations_of_table sr t = (case relation_of_table sr t of Inl e \<Rightarrow> [] | Inr r \<Rightarrow> [r])"

text \<open>The rows the loop of \<^verbatim>\<open>_get_one_catalog\<close> adds for a table.\<close>

definition rows_of_table :: "string \<Rightarrow> string \<Rightarrow> glue_table \<Rightarrow> row list" where
  "rows_of_table db schema t =
     (case catalog_rows_of_table db schema t of Inl e \<Rightarrow> [] | Inr rows \<Rightarrow> rows)"

text \<open>
  The rows the loops of \<^verbatim>\<open>_get_one_catalog\<close> gather when nothing is raised: those
  of the tables a schema's generator yields, schema after schema.
\<close>

definition schema_rows :: "('t, 'm) env \<Rightarrow> string \<Rightarrow> string \<Rightarrow> row list" where
  "schema_rows env db schema =
     concat (map (rows_of_table db schema)
               (concat (map step_tables (retrieve_glue_tables env db schema))))"

definition catalog_rows :: "('t, 'm) env \<Rightarrow> string \<Rightarrow> string list \<Rightarrow> row list" where
  "catalog_rows env db schemas = concat (map (schema_rows env db) schemas)"

section \<open>Examples\<close>

text \<open>Concrete credentials, worlds and collaborators, for the instances below.\<close>

definition ex_creds :: credentials where
  "ex_creds = \<lparr>s3_data_dir = None, s3_staging_dir = ''s3://b/'', s3_data_naming = ''schema_table''\<rparr>"

definition ex_world :: world where
  "ex_world = \<lparr>calls = [], uuid_count = 0\<rparr>"

text \<open>Lower case on the letters A to Z, which is what \<^verbatim>\<open>str.lower\<close> does on ASCII text.\<close>

definition ascii_lower_char :: "char \<Rightarrow> char" where
  "ascii_lower_char c =
     (let n = (of_char c :: nat) in if 65 \<le> n \<and> n \<le> 90 then char_of (n + 32) else c)"

definition ascii_lower :: "string \<Rightarrow> string" where
  "ascii_lower s = map ascii_lower_char s"

definition ex_env :: "(string list option \<times> pyval list list, unit) env" where
  "ex_env =
     \<lparr>glue_get_tables = (\<lambda>q. []),
      glue_get_table = (\<lambda>d n. Inl (ClientError ''EntityNotFoundException'' None)),
      glue_get_partitions = (\<lambda>d t e. Inr []),
      s3_delete = (\<lambda>b k. Inr ()),
      list_schemas = (\<lambda>d. Inr []),
      super_list_relations = (\<lambda>r. Inr []),
      execute_macro = (\<lambda>n i s m. Inr (Some [''table_database''], [[PStr ''from_sql'']])),
      GET_CATALOG_MACRO_NAME = ''get_catalog'',
      table_from_rows = (\<lambda>rows names text_only. (names, rows)),
      catalog_filter_table = (\<lambda>t m. t),
      get_used_schemas = (\<lambda>m. []),
      str_lower = ascii_lower,
      uuid4 = (\<lambda>n. if n = 0 then ''6f1c'' else ''a2e9'')\<rparr>"



definition ex_column :: "string \<Rightarrow> glue_column" where
  "ex_column n = \<lparr>col_Name = n, col_Type = ''string'', col_Comment = None\<rparr>"

definition ex_table :: "string \<Rightarrow> string \<Rightarrow> glue_table" where
  "ex_table n kind =
     \<lparr>tbl_Name = n, tbl_TableType = kind,
      tbl_StorageDescriptor =
        \<lparr>sd_Columns = [ex_column ''a'', ex_column ''b''],
         sd_Location = Some ''s3://bkt/t/'', sd_Compressed = False\<rparr>,
      tbl_PartitionKeys = [ex_column ''p''],
      tbl_Description = None, tbl_Owner = Some ''me'',
      tbl_CreateTime = None, tbl_UpdateTime = None, tbl_CreatedBy = ''arn:me''\<rparr>"

text \<open>Schema S1 has one page; the second page of schema s2 is denied.\<close>

definition ex_pages :: "query_params \<Rightarrow> (error + glue_table list) list" where
  "ex_pages q =
     (if DatabaseName q = ''S1'' then [Inr [ex_table ''t1'' ''EXTERNAL_TABLE'']]
      else [Inr [ex_table ''v1'' ''VIRTUAL_VIEW''],
            Inl (ClientError ''AccessDeniedException'' (Some ''denied'')),
            Inr [ex_table ''t9'' ''EXTERNAL_TABLE'']])"

definition ex_catalog_env :: "(string list option \<times> pyval list list, unit) env" where
  "ex_catalog_env =
     ex_env\<lparr>glue_get_tables := ex_pages,
            list_schemas := (\<lambda>d. Inr [''S1'', ''unused'', ''s2'']),
            get_used_schemas := (\<lambda>m. [(''awsdatacatalog'', ''s1''), (''awsdatacatalog'', ''S2'')])\<rparr>"

definition ex_info :: information_schema where
  "ex_info = \<lparr>database = ''awsdatacatalog''\<rparr>"

definition ex_q :: "string \<Rightarrow> query_params" where
  "ex_q n = \<lparr>DatabaseName = n, MaxResults = 50, CatalogId = None\<rparr>"

definition ex_relation :: relation where
  "ex_relation =
     \<lparr>rel_database = ''awsdatacatalog'', rel_schema = ''S1'', rel_identifier = [],
      rel_quote_policy = \<lparr>qp_database = True, qp_schema = True, qp_identifier = True\<rparr>,
      rel_type = Table, column_information = []\<rparr>"

text \<open>Every schema has a table of a kind the adapter does not know, then a denied page.\<close>

definition ex_unknown_env :: "(string list option \<times> pyval list list, unit) env" where
  "ex_unknown_env =
     ex_catalog_env\<lparr>glue_get_tables :=
       (\<lambda>q. [Inr [ex_table ''t1'' ''EXTERNAL_TABLE'', ex_table ''t2'' ''MANAGED_TABLE''],
             Inl (ClientError ''AccessDeniedException'' None)])\<rparr>"

text \<open>Both working schemas are listed to their end.\<close>

definition ex_full_env :: "(string list option \<times> pyval list list, unit) env" where
  "ex_full_env =
     ex_catalog_env\<lparr>glue_get_tables :=
       (\<lambda>q. if DatabaseName q = ''S1'' then [Inr [ex_table ''t1'' ''EXTERNAL_TABLE'']]
             else [Inr [ex_table ''v1'' ''VIRTUAL_VIEW'']])\<rparr>"

section \<open>Properties\<close>

subsection \<open>Storage locations\<close>

text \<open>
  C4. The table storage root is \<open>s3_data_dir\<close> when it is set and
  \<open>s3_staging_dir\<close> followed by \<open>tables/\<close> otherwise; under the naming
  \<open>schema_table\<close> the location of a table is the root, the schema, a slash, the
  table and a slash, and the world is left as it was.
\<close>

theorem s3_table_location_schema_table:
  "(s3_data_dir creds = Some d \<longrightarrow> s3_table_prefix creds = d) \<and>
   (s3_data_dir creds = None \<longrightarrow> s3_table_prefix creds = s3_staging_dir creds @ ''tables/'') \<and>
   (s3_data_naming creds = ''schema_table'' \<longrightarrow>
      s3_table_location env creds schema_name table_name w =
        (Inr (s3_table_prefix creds @ schema_name @ ''/'' @ table_name @ ''/''), w))"
  by (simp add: s3_table_prefix_def s3_table_location_def s3_schema_table_location_def)

theorem s3_table_location_schema_table_witness:
  "s3_data_dir ex_creds = None \<and> s3_data_naming ex_creds = ''schema_table'' \<and>
   s3_table_location ex_env ex_creds ''s1'' ''t1'' ex_world = (Inr ''s3://b/tables/s1/t1/'', ex_world)"
  using s3_table_location_schema_table
    [where creds = ex_creds and env = ex_env and schema_name = "''s1''"
       and table_name = "''t1''" and w = ex_world]
  by (simp add: ex_creds_def)

text \<open>
  C9. With a naming that is neither \<open>schema_table\<close> nor \<open>uuid\<close>,
  \<^verbatim>\<open>s3_table_location\<close> raises the ValueError that names the value, and the world
  is unchanged: no request was issued and no identifier drawn.
\<close>

theorem s3_table_location_unknown_naming:
  assumes "s3_data_naming creds \<noteq> ''schema_table''" and "s3_data_naming creds \<noteq> ''uuid''"
  shows "s3_table_location env creds schema_name table_name w =
           (Inl (ValueError (''Unknown value for s3_data_naming: '' @ s3_data_naming creds)), w)"
  using assms by (simp add: s3_table_location_def)

theorem s3_table_location_unknown_naming_witness:
  "s3_table_location ex_env (ex_creds\<lparr>s3_data_naming := ''table''\<rparr>) ''s1'' ''t1'' ex_world =
     (Inl (ValueError ''Unknown value for s3_data_naming: table''), ex_world)"
  using s3_table_location_unknown_naming
    [where creds = "ex_creds\<lparr>s3_data_naming := ''table''\<rparr>" and env = ex_env
       and schema_name = "''s1''" and table_name = "''t1''" and w = ex_world]
  by simp




subsection \<open>Cleaning up a table\<close>

text \<open>
  C5. When \<^verbatim>\<open>get_table\<close> fails with the code EntityNotFoundException,
  \<^verbatim>\<open>clean_up_table\<close> returns normally; the one request it has issued is that
  \<^verbatim>\<open>get_table\<close>, so the deletes in the world are those that were there before.
\<close>

theorem clean_up_table_not_found:
  assumes "glue_get_table env database_name table_name =
             Inl (ClientError ''EntityNotFoundException'' msg)"
  shows "clean_up_table env database_name table_name w =
           (Inr (), remote (GlueGetTable database_name table_name) w) \<and>
         filter is_S3Delete (calls (snd (clean_up_table env database_name table_name w))) =
           filter is_S3Delete (calls w)"
  using assms by (simp add: clean_up_table_def remote_def)

theorem clean_up_table_not_found_witness:
  "clean_up_table ex_env ''db'' ''t1'' ex_world =
     (Inr (), \<lparr>calls = [GlueGetTable ''db'' ''t1''], uuid_count = 0\<rparr>)"
  using clean_up_table_not_found
    [where env = ex_env and database_name = "''db''" and table_name = "''t1''"
       and msg = None and w = ex_world]
  by (simp add: ex_env_def ex_world_def remote_def)

text \<open>
  C6. When \<^verbatim>\<open>get_table\<close> fails with a ClientError of any other code,
  \<^verbatim>\<open>clean_up_table\<close> ends in the UnboundLocalError of the local
  \<^verbatim>\<open>table\<close>, not in the ClientError, and issues no delete.
\<close>

theorem clean_up_table_other_client_error:
  assumes "glue_get_table env database_name table_name = Inl (ClientError code msg)"
    and "code \<noteq> ''EntityNotFoundException''"
  shows "clean_up_table env database_name table_name w =
           (Inl (UnboundLocalError ''table''), remote (GlueGetTable database_name table_name) w) \<and>
         filter is_S3Delete (calls (snd (clean_up_table env database_name table_name w))) =
           filter is_S3Delete (calls w)"
  using assms by (simp add: clean_up_table_def remote_def)

theorem clean_up_table_other_client_error_witness:
  "clean_up_table
     (ex_env\<lparr>glue_get_table := (\<lambda>d n. Inl (ClientError ''AccessDeniedException'' (Some ''denied'')))\<rparr>)
     ''db'' ''t1'' ex_world =
     (Inl (UnboundLocalError ''table''), \<lparr>calls = [GlueGetTable ''db'' ''t1''], uuid_count = 0\<rparr>)"
  using clean_up_table_other_client_error
    [where env = "ex_env\<lparr>glue_get_table := (\<lambda>d n. Inl (ClientError ''AccessDeniedException'' (Some ''denied'')))\<rparr>"
       and database_name = "''db''" and table_name = "''t1''"
       and code = "''AccessDeniedException''" and msg = "Some ''denied''" and w = ex_world]
  by (simp add: ex_world_def remote_def)

subsection \<open>Cleaning up partitions\<close>

text \<open>
  What \<open>s3_location_match\<close> accepts: a location that starts with the scheme, a bucket
  without a slash, a slash and a prefix, the prefix ending at the first newline.
\<close>

lemma s3_location_match_complete:
  assumes "CHR ''/'' \<notin> set bucket_name" and "CHR 0x0A \<notin> set prefix"
  shows "s3_location_match (''s3://'' @ bucket_name @ ''/'' @ prefix) = Some (bucket_name, prefix)"
proof -
  from assms(1) have "dropWhile (\<lambda>c. c \<noteq> CHR ''/'') (bucket_name @ CHR ''/'' # prefix) = CHR ''/'' # prefix"
    by (auto simp: dropWhile_append3)
  moreover from assms(1) have "takeWhile (\<lambda>c. c \<noteq> CHR ''/'') (bucket_name @ CHR ''/'' # prefix) = bucket_name"
    by (auto simp: takeWhile_tail)
  moreover from assms(2) have "takeWhile (\<lambda>c. c \<noteq> CHR 0x0A) prefix = prefix"
    by (auto simp: takeWhile_eq_all_conv)
  ultimately show ?thesis by (simp add: s3_location_match_def)
qed

lemma s3_location_match_sound:
  assumes "s3_location_match loc = Some (bucket_name, prefix)"
  shows "\<exists>rest. loc = ''s3://'' @ bucket_name @ ''/'' @ prefix @ rest \<and>
           CHR ''/'' \<notin> set bucket_name \<and> CHR 0x0A \<notin> set prefix"
proof -
  let ?r = "drop 5 loc"
  from assms have scheme: "take 5 loc = ''s3://''"
    by (simp add: s3_location_match_def split: if_splits)
  with assms obtain slash after where d: "dropWhile (\<lambda>c. c \<noteq> CHR ''/'') ?r = slash # after"
    and b: "bucket_name = takeWhile (\<lambda>c. c \<noteq> CHR ''/'') ?r"
    and p: "prefix = takeWhile (\<lambda>c. c \<noteq> CHR 0x0A) after"
    by (auto simp: s3_location_match_def split: list.splits)
  from d have "slash = CHR ''/''"
    using hd_dropWhile [of "\<lambda>c. c \<noteq> CHR ''/''" ?r] by auto
  with d b have "?r = bucket_name @ CHR ''/'' # after"
    using takeWhile_dropWhile_id [of "\<lambda>c. c \<noteq> CHR ''/''" ?r] by simp
  moreover have "after = prefix @ dropWhile (\<lambda>c. c \<noteq> CHR 0x0A) after"
    using p by simp
  moreover have "loc = take 5 loc @ ?r" by simp
  ultimately have "loc = ''s3://'' @ bucket_name @ ''/'' @ prefix @ dropWhile (\<lambda>c. c \<noteq> CHR 0x0A) after"
    using scheme by (metis append_Cons append_Nil)
  moreover from b have "CHR ''/'' \<notin> set bucket_name"
    by (auto dest: set_takeWhileD)
  moreover from p have "CHR 0x0A \<notin> set prefix"
    by (auto dest: set_takeWhileD)
  ultimately show ?thesis by blast
qed






subsection \<open>The loops over the generator\<close>

lemma passes_simps [simp]:
  "passes []"
  "passes (st # steps) = (step_error st = None \<and> passes steps)"
  "passes (xs @ ys) = (passes xs \<and> passes ys)"
  by (simp_all add: passes_def)

lemma step_error_catalog_rows:
  "step_error (Yield t) = None \<Longrightarrow>
   catalog_rows_of_table db schema t = Inr (rows_of_table db schema t)"
  by (simp add: rows_of_table_def catalog_rows_of_table_def split: sum.splits)

lemma step_error_catalog_rows_fail:
  "step_error (Yield t) = Some e \<Longrightarrow> catalog_rows_of_table db schema t = Inl e"
  by (simp add: catalog_rows_of_table_def split: sum.splits)

lemma tables_loop_pass:
  "passes pre \<Longrightarrow>
   tables_loop db schema rows w (pre @ rest) =
     tables_loop db schema
       (rows @ concat (map (rows_of_table db schema) (concat (map step_tables pre))))
       (w\<lparr>calls := calls w @ concat (map step_calls pre)\<rparr>) rest"
proof (induction pre arbitrary: rows w)
  case Nil
  then show ?case by simp
next
  case (Cons st pre)
  then show ?case
    by (cases st) (simp_all add: remote_def step_error_catalog_rows del: step_error.simps(3))
qed

lemma tables_loop_fail:
  "step_error st = Some e \<Longrightarrow> tables_loop db schema rows w (st # rest) = (Inl e, w)"
  by (cases st) (simp_all add: step_error_catalog_rows_fail del: step_error.simps(3))

lemma tables_loop_stops:
  assumes "passes pre" and "step_error st = Some e"
  shows "tables_loop db schema rows w (pre @ st # rest) =
           (Inl e, w\<lparr>calls := calls w @ concat (map step_calls pre)\<rparr>)"
  using assms by (simp add: tables_loop_pass tables_loop_fail)

lemma tables_loop_all:
  assumes "passes steps"
  shows "tables_loop db schema rows w steps =
           (Inr (rows @ concat (map (rows_of_table db schema) (concat (map step_tables steps)))),
            w\<lparr>calls := calls w @ concat (map step_calls steps)\<rparr>)"
  using tables_loop_pass [OF assms, of db schema rows w "[]"] by simp

lemma schemas_loop_stops:
  "glue_steps env db ss = pre @ st # rest \<Longrightarrow> passes pre \<Longrightarrow> step_error st = Some e \<Longrightarrow>
   schemas_loop env db rows w ss = (Inl e, w\<lparr>calls := calls w @ concat (map step_calls pre)\<rparr>)"
proof (induction ss arbitrary: rows w pre)
  case Nil
  then show ?case by (simp add: glue_steps_def)
next
  case (Cons s ss)
  let ?X = "retrieve_glue_tables env db s"
  from Cons.prems(1) have eq: "?X @ glue_steps env db ss = pre @ st # rest"
    by (simp add: glue_steps_def)
  then obtain us where
    "(?X = pre @ us \<and> us @ glue_steps env db ss = st # rest) \<or>
     (?X @ us = pre \<and> glue_steps env db ss = us @ st # rest)"
    by (auto simp: append_eq_append_conv2)
  then consider
      (inside) us' where "?X = pre @ st # us'"
    | (later) us where "?X @ us = pre" "glue_steps env db ss = us @ st # rest"
  proof (elim disjE conjE)
    assume a: "?X = pre @ us" "us @ glue_steps env db ss = st # rest"
    assume r1: "\<And>us'. ?X = pre @ st # us' \<Longrightarrow> thesis"
    assume r2: "\<And>us. ?X @ us = pre \<Longrightarrow> glue_steps env db ss = us @ st # rest \<Longrightarrow> thesis"
    show thesis
    proof (cases us)
      case Nil
      with a r2 [of "[]"] show ?thesis by simp
    next
      case (Cons u us')
      with a r1 [of us'] show ?thesis by simp
    qed
  next
    assume "?X @ us = pre" "glue_steps env db ss = us @ st # rest"
    moreover assume "\<And>us. ?X @ us = pre \<Longrightarrow> glue_steps env db ss = us @ st # rest \<Longrightarrow> thesis"
    ultimately show thesis by blast
  qed
  then show ?case
  proof cases
    case inside
    with Cons.prems show ?thesis by (simp add: tables_loop_stops)
  next
    case later
    with Cons.prems(2) have p: "passes ?X" "passes us" by auto
    from Cons.IH [OF later(2) p(2) Cons.prems(3)] p(1) later(1) [symmetric]
    show ?thesis by (simp add: tables_loop_all)
  qed
qed

subsection \<open>The catalog falls back to SQL\<close>

lemma lower_ex:
  "ascii_lower ''S1'' = ''s1''" "ascii_lower ''s1'' = ''s1''" "ascii_lower ''S2'' = ''s2''"
  "ascii_lower ''unused'' = ''unused''" "ascii_lower ''s2'' = ''s2''"
  by code_simp+

lemma ex_targets:
  "target_schemas_of (str_lower ex_catalog_env) (get_used_schemas ex_catalog_env ()) [''S1'', ''unused'', ''s2''] = [''S1'', ''s2'']"
  by (simp add: target_schemas_of_def ex_catalog_env_def ex_env_def lower_ex)

lemma ex_steps:
  "glue_steps ex_catalog_env ''awsdatacatalog'' [''S1'', ''s2''] =
     [Remote (GlueGetTables (ex_q ''S1'')), Yield (ex_table ''t1'' ''EXTERNAL_TABLE''),
      Remote (GlueGetTables (ex_q ''s2'')), Yield (ex_table ''v1'' ''VIRTUAL_VIEW''),
      Remote (GlueGetTables (ex_q ''s2''))] @
     Raise (ClientError ''AccessDeniedException'' (Some ''denied'')) # []"
  by (simp add: glue_steps_def retrieve_glue_tables_def ex_catalog_env_def ex_env_def ex_pages_def ex_q_def Let_def)

text \<open>
  C1. The catalog-service client is called by the generators of the working schemas,
  inside the \<^verbatim>\<open>try\<close>. When one of them, driven in its turn, raises a ClientError
  after steps that all pass, \<^verbatim>\<open>_get_one_catalog\<close> is the SQL path run in the world
  reached so far: its result is the outcome of the get-catalog macro for the same
  information schema, schemas and manifest, through the same filter, and holds none of
  the rows gathered from Glue.
\<close>

theorem get_one_catalog_fallback:
  assumes "list_schemas env (database info) = Inr schema_list"
    and "glue_steps env (database info)
           (target_schemas_of (str_lower env) (get_used_schemas env manifest) schema_list) =
             pre @ Raise (ClientError code msg) # rest"
    and "passes pre"
  shows "get_one_catalog env info schemas manifest w =
           sql_catalog env info schemas manifest
             (w\<lparr>calls := calls w @ SQLListSchemas (database info) # concat (map step_calls pre)\<rparr>) \<and>
         fst (get_one_catalog env info schemas manifest w) =
           (case execute_macro env (GET_CATALOG_MACRO_NAME env) info schemas manifest of
              Inl e \<Rightarrow> Inl e
            | Inr table \<Rightarrow> Inr (catalog_filter_table env table manifest))"
proof -
  let ?w1 = "remote (SQLListSchemas (database info)) w"
  have loop: "schemas_loop env (database info) [] ?w1
      (target_schemas_of (str_lower env) (get_used_schemas env manifest) schema_list) =
      (Inl (ClientError code msg), ?w1\<lparr>calls := calls ?w1 @ concat (map step_calls pre)\<rparr>)"
    by (rule schemas_loop_stops [OF assms(2,3)]) simp
  with assms(1) have g: "get_one_catalog env info schemas manifest w =
        sql_catalog env info schemas manifest
          (w\<lparr>calls := calls w @ SQLListSchemas (database info) # concat (map step_calls pre)\<rparr>)"
    by (simp add: get_one_catalog_def glue_catalog_def remote_def)
  have "fst (get_one_catalog env info schemas manifest w) =
        (case execute_macro env (GET_CATALOG_MACRO_NAME env) info schemas manifest of
           Inl e \<Rightarrow> Inl e
         | Inr table \<Rightarrow> Inr (catalog_filter_table env table manifest))"
    unfolding g by (simp add: sql_catalog_def split: sum.splits)
  with g show ?thesis by simp
qed

theorem get_one_catalog_fallback_witness:
  "get_one_catalog ex_catalog_env ex_info {''s1'', ''s2''} () ex_world =
     (Inr (Some [''table_database''], [[PStr ''from_sql'']]),
      \<lparr>calls = [SQLListSchemas ''awsdatacatalog'',
                GlueGetTables (ex_q ''S1''), GlueGetTables (ex_q ''s2''), GlueGetTables (ex_q ''s2''),
                ExecuteMacro ''get_catalog''],
       uuid_count = 0\<rparr>)"
  using get_one_catalog_fallback
    [where env = ex_catalog_env and info = ex_info and schemas = "{''s1'', ''s2''}"
       and manifest = "()" and w = ex_world and schema_list = "[''S1'', ''unused'', ''s2'']"
       and code = "''AccessDeniedException''" and msg = "Some ''denied''" and rest = "[]"
       and pre = "[Remote (GlueGetTables (ex_q ''S1'')), Yield (ex_table ''t1'' ''EXTERNAL_TABLE''),
      Remote (GlueGetTables (ex_q ''s2'')), Yield (ex_table ''v1'' ''VIRTUAL_VIEW''),
      Remote (GlueGetTables (ex_q ''s2''))]"]
    ex_targets ex_steps
  by (simp add: ex_info_def ex_catalog_env_def [unfolded ex_env_def] ex_world_def
        sql_catalog_def remote_def get_rel_type_from_glue_response_def ex_table_def)

subsection \<open>The loop of the relation listing and the requests of the generator\<close>

lemma step_error_relation:
  "step_error (Yield t) = None \<Longrightarrow> \<exists>r. relation_of_table sr t = Inr r \<and> relations_of_table sr t = [r]"
  by (simp add: relations_of_table_def relation_of_table_def split: sum.splits)

lemma step_error_relation_fail:
  "step_error (Yield t) = Some e \<Longrightarrow> relation_of_table sr t = Inl e"
  by (simp add: relation_of_table_def split: sum.splits)

lemma relations_loop_pass:
  "passes pre \<Longrightarrow>
   relations_loop sr relations w (pre @ rest) =
     relations_loop sr
       (relations @ concat (map (relations_of_table sr) (concat (map step_tables pre))))
       (w\<lparr>calls := calls w @ concat (map step_calls pre)\<rparr>) rest"
proof (induction pre arbitrary: relations w)
  case Nil
  then show ?case by simp
next
  case (Cons st pre)
  show ?case
  proof (cases st)
    case (Yield t)
    with Cons.prems have "step_error (Yield t) = None" by simp
    from step_error_relation [OF this, of sr] obtain r where
      "relation_of_table sr t = Inr r" "relations_of_table sr t = [r]" by blast
    with Yield Cons show ?thesis by simp
  qed (use Cons in \<open>simp_all add: remote_def\<close>)
qed

lemma relations_loop_stops:
  assumes "passes pre" and "step_error st = Some e"
  shows "relations_loop sr relations w (pre @ st # rest) =
           (Inl e, w\<lparr>calls := calls w @ concat (map step_calls pre)\<rparr>)"
proof -
  from assms(2) have "relations_loop sr rs w' (st # rest) = (Inl e, w')" for rs w'
    by (cases st) (simp_all add: step_error_relation_fail del: step_error.simps(3))
  with assms(1) show ?thesis by (simp add: relations_loop_pass)
qed

lemma relations_loop_all:
  assumes "passes steps"
  shows "relations_loop sr relations w steps =
           (Inr (relations @ concat (map (relations_of_table sr) (concat (map step_tables steps)))),
            w\<lparr>calls := calls w @ concat (map step_calls steps)\<rparr>)"
  using relations_loop_pass [OF assms, of sr relations w "[]"] by simp

lemma paginate_calls: "list_all is_Glue (concat (map step_calls (paginate q pages)))"
  by (induction q pages rule: paginate.induct) (simp_all add: list_all_iff)

lemma step_calls_Yield: "concat (map step_calls (map Yield ts)) = []"
  by (induction ts) simp_all

lemma retrieve_glue_tables_calls:
  "list_all is_Glue (concat (map step_calls (retrieve_glue_tables env catalog_id name)))"
  by (simp add: retrieve_glue_tables_def paginate_calls Let_def)

lemma glue_steps_calls: "list_all is_Glue (concat (map step_calls (glue_steps env db ss)))"
  by (induction ss) (simp_all add: glue_steps_def retrieve_glue_tables_calls)

lemma is_Glue_not_SQL: "is_Glue c \<Longrightarrow> \<not> is_SQL c"
  by (cases c) simp_all

subsection \<open>Exceptions of the consumers that are not caught\<close>

lemma ex_unknown_targets:
  "target_schemas_of (str_lower ex_unknown_env) (get_used_schemas ex_unknown_env ()) [''S1'', ''unused'', ''s2''] = [''S1'', ''s2'']"
  by (simp add: target_schemas_of_def ex_unknown_env_def ex_catalog_env_def ex_env_def lower_ex)

lemma ex_unknown_steps:
  "retrieve_glue_tables ex_unknown_env ''awsdatacatalog'' ''S1'' =
     [Remote (GlueGetTables (ex_q ''S1'')), Yield (ex_table ''t1'' ''EXTERNAL_TABLE'')] @
     Yield (ex_table ''t2'' ''MANAGED_TABLE'') #
     [Remote (GlueGetTables (ex_q ''S1'')), Raise (ClientError ''AccessDeniedException'' None)]"
  by (simp add: retrieve_glue_tables_def ex_unknown_env_def ex_catalog_env_def ex_env_def ex_q_def Let_def)

lemma ex_unknown_glue_steps:
  "glue_steps ex_unknown_env ''awsdatacatalog'' [''S1'', ''s2''] =
     [Remote (GlueGetTables (ex_q ''S1'')), Yield (ex_table ''t1'' ''EXTERNAL_TABLE'')] @
     Yield (ex_table ''t2'' ''MANAGED_TABLE'') #
     [Remote (GlueGetTables (ex_q ''S1'')), Raise (ClientError ''AccessDeniedException'' None)] @
     retrieve_glue_tables ex_unknown_env ''awsdatacatalog'' ''s2''"
  by (simp add: glue_steps_def ex_unknown_steps)

lemma get_one_catalog_stops:
  assumes "list_schemas env (database info) = Inr schema_list"
    and "glue_steps env (database info)
           (target_schemas_of (str_lower env) (get_used_schemas env manifest) schema_list) = pre @ st # rest"
    and "passes pre" and "step_error st = Some (RuntimeException m)"
  shows "get_one_catalog env info schemas manifest w =
           (Inl (RuntimeException m),
            w\<lparr>calls := calls w @ SQLListSchemas (database info) # concat (map step_calls pre)\<rparr>)"
proof -
  let ?w1 = "remote (SQLListSchemas (database info)) w"
  have "schemas_loop env (database info) [] ?w1
          (target_schemas_of (str_lower env) (get_used_schemas env manifest) schema_list) =
        (Inl (RuntimeException m), ?w1\<lparr>calls := calls ?w1 @ concat (map step_calls pre)\<rparr>)"
    by (rule schemas_loop_stops [OF assms(2,3,4)])
  with assms(1) show ?thesis
    by (simp add: get_one_catalog_def glue_catalog_def remote_def)
qed

lemma list_relations_stops:
  assumes "retrieve_glue_tables env (rel_database sr) (rel_schema sr) = pre @ st # rest"
    and "passes pre" and "step_error st = Some (RuntimeException m)"
  shows "list_relations_without_caching env sr w =
           (Inl (RuntimeException m), w\<lparr>calls := calls w @ concat (map step_calls pre)\<rparr>)"
  using assms by (simp add: list_relations_without_caching_def relations_loop_stops)

text \<open>
  C3. The classifier gives View for the kind VIRTUAL_VIEW, Table for EXTERNAL_TABLE and
  raises the RuntimeException naming the kind and the table for any other. When a
  generator yields such a table after steps that all pass, both
  \<^verbatim>\<open>list_relations_without_caching\<close> and \<^verbatim>\<open>_get_one_catalog\<close> end in that
  exception; the requests issued since the start are the schema listing of the latter
  and the page requests made so far, so the SQL path was not taken.
\<close>

theorem unknown_relation_type:
  "(tbl_TableType t = ''VIRTUAL_VIEW'' \<longrightarrow> get_rel_type_from_glue_response t = Inr View) \<and>
   (tbl_TableType t = ''EXTERNAL_TABLE'' \<longrightarrow> get_rel_type_from_glue_response t = Inr Table) \<and>
   (tbl_TableType t \<noteq> ''VIRTUAL_VIEW'' \<and> tbl_TableType t \<noteq> ''EXTERNAL_TABLE'' \<longrightarrow>
      get_rel_type_from_glue_response t =
        Inl (RuntimeException (''Unknown table type '' @ tbl_TableType t @ '' for '' @ tbl_Name t)) \<and>
      (retrieve_glue_tables env (rel_database sr) (rel_schema sr) = pre @ Yield t # rest \<and>
       passes pre \<longrightarrow>
         list_relations_without_caching env sr w =
           (Inl (RuntimeException (''Unknown table type '' @ tbl_TableType t @ '' for '' @ tbl_Name t)),
            w\<lparr>calls := calls w @ concat (map step_calls pre)\<rparr>) \<and>
         list_all is_Glue (concat (map step_calls pre))) \<and>
      (list_schemas env (database info) = Inr schema_list \<and>
       glue_steps env (database info)
         (target_schemas_of (str_lower env) (get_used_schemas env manifest) schema_list) = pre' @ Yield t # rest' \<and>
       passes pre' \<longrightarrow>
         get_one_catalog env info schemas manifest w' =
           (Inl (RuntimeException (''Unknown table type '' @ tbl_TableType t @ '' for '' @ tbl_Name t)),
            w'\<lparr>calls := calls w' @ SQLListSchemas (database info) # concat (map step_calls pre')\<rparr>) \<and>
         list_all is_Glue (concat (map step_calls pre'))))"
proof (intro conjI impI)
  assume k: "tbl_TableType t \<noteq> ''VIRTUAL_VIEW'' \<and> tbl_TableType t \<noteq> ''EXTERNAL_TABLE''"
  let ?m = "''Unknown table type '' @ tbl_TableType t @ '' for '' @ tbl_Name t"
  from k show c: "get_rel_type_from_glue_response t = Inl (RuntimeException ?m)"
    by (simp add: get_rel_type_from_glue_response_def)
  then have e: "step_error (Yield t) = Some (RuntimeException ?m)" by simp
  {
    assume h: "retrieve_glue_tables env (rel_database sr) (rel_schema sr) = pre @ Yield t # rest \<and>
       passes pre"
    then have h1: "retrieve_glue_tables env (rel_database sr) (rel_schema sr) = pre @ Yield t # rest"
      and h2: "passes pre" by simp_all
    show "list_relations_without_caching env sr w =
           (Inl (RuntimeException ?m), w\<lparr>calls := calls w @ concat (map step_calls pre)\<rparr>)"
      by (rule list_relations_stops [OF h1 h2 e])
    from h retrieve_glue_tables_calls [of env "rel_database sr" "rel_schema sr"]
    show "list_all is_Glue (concat (map step_calls pre))" by simp
  }
  {
    assume h: "list_schemas env (database info) = Inr schema_list \<and>
       glue_steps env (database info)
         (target_schemas_of (str_lower env) (get_used_schemas env manifest) schema_list) = pre' @ Yield t # rest' \<and>
       passes pre'"
    then have h1: "list_schemas env (database info) = Inr schema_list"
      and h2: "glue_steps env (database info)
         (target_schemas_of (str_lower env) (get_used_schemas env manifest) schema_list) = pre' @ Yield t # rest'"
      and h3: "passes pre'" by simp_all
    show "get_one_catalog env info schemas manifest w' =
           (Inl (RuntimeException ?m),
            w'\<lparr>calls := calls w' @ SQLListSchemas (database info) # concat (map step_calls pre')\<rparr>)"
      by (rule get_one_catalog_stops [OF h1 h2 h3 e])
    from h glue_steps_calls [of env "database info"
        "target_schemas_of (str_lower env) (get_used_schemas env manifest) schema_list"]
    show "list_all is_Glue (concat (map step_calls pre'))" by simp
  }
qed (simp_all add: get_rel_type_from_glue_response_def)

theorem unknown_relation_type_witness:
  "get_rel_type_from_glue_response (ex_table ''v1'' ''VIRTUAL_VIEW'') = Inr View \<and>
   get_rel_type_from_glue_response (ex_table ''t1'' ''EXTERNAL_TABLE'') = Inr Table \<and>
   list_relations_without_caching ex_unknown_env ex_relation ex_world =
     (Inl (RuntimeException ''Unknown table type MANAGED_TABLE for t2''),
      \<lparr>calls = [GlueGetTables (ex_q ''S1'')], uuid_count = 0\<rparr>) \<and>
   get_one_catalog ex_unknown_env ex_info {''s1'', ''s2''} () ex_world =
     (Inl (RuntimeException ''Unknown table type MANAGED_TABLE for t2''),
      \<lparr>calls = [SQLListSchemas ''awsdatacatalog'', GlueGetTables (ex_q ''S1'')], uuid_count = 0\<rparr>)"
  using unknown_relation_type
    [where t = "ex_table ''t2'' ''MANAGED_TABLE''" and env = ex_unknown_env and sr = ex_relation
       and w = ex_world and w' = ex_world and info = ex_info and schemas = "{''s1'', ''s2''}"
       and manifest = "()" and schema_list = "[''S1'', ''unused'', ''s2'']"
       and pre = "[Remote (GlueGetTables (ex_q ''S1'')), Yield (ex_table ''t1'' ''EXTERNAL_TABLE'')]"
       and rest = "[Remote (GlueGetTables (ex_q ''S1'')), Raise (ClientError ''AccessDeniedException'' None)]"
       and pre' = "[Remote (GlueGetTables (ex_q ''S1'')), Yield (ex_table ''t1'' ''EXTERNAL_TABLE'')]"
       and rest' = "[Remote (GlueGetTables (ex_q ''S1'')), Raise (ClientError ''AccessDeniedException'' None)] @
     retrieve_glue_tables ex_unknown_env ''awsdatacatalog'' ''s2''"]
    unknown_relation_type [where t = "ex_table ''v1'' ''VIRTUAL_VIEW''"]
    unknown_relation_type [where t = "ex_table ''t1'' ''EXTERNAL_TABLE''"]
    ex_unknown_targets ex_unknown_steps ex_unknown_glue_steps
  by (simp add: ex_table_def ex_relation_def ex_info_def ex_world_def
        ex_unknown_env_def [unfolded ex_catalog_env_def ex_env_def]
        get_rel_type_from_glue_response_def)

text \<open>
  C7. With an empty catalog identifier or an empty schema name the generator of
  \<^verbatim>\<open>_retrieve_glue_tables\<close> raises its RuntimeException as its only step, before
  any page request. \<^verbatim>\<open>list_relations_without_caching\<close> then ends in that
  exception with the world unchanged, and \<^verbatim>\<open>_get_one_catalog\<close> ends in it when
  its loop comes to such a schema, having issued the schema listing and the page requests
  of the schemas before it and nothing of the SQL path.
\<close>

theorem retrieve_glue_tables_needs_identifiers:
  "(catalog_id = [] \<longrightarrow>
      retrieve_glue_tables env catalog_id name =
        [Raise (RuntimeException ''Glue GetTables: Need catalog id'')]) \<and>
   (catalog_id \<noteq> [] \<and> name = [] \<longrightarrow>
      retrieve_glue_tables env catalog_id name =
        [Raise (RuntimeException ''Glue GetTables: Need database name'')]) \<and>
   (rel_database sr = [] \<or> rel_schema sr = [] \<longrightarrow>
      list_relations_without_caching env sr w =
        (Inl (RuntimeException
               (if rel_database sr = [] then ''Glue GetTables: Need catalog id''
                else ''Glue GetTables: Need database name'')), w)) \<and>
   (list_schemas env (database info) = Inr schema_list \<and>
    target_schemas_of (str_lower env) (get_used_schemas env manifest) schema_list = before @ s # after \<and>
    passes (glue_steps env (database info) before) \<and>
    (database info = [] \<or> s = []) \<longrightarrow>
      get_one_catalog env info schemas manifest w' =
        (Inl (RuntimeException
               (if database info = [] then ''Glue GetTables: Need catalog id''
                else ''Glue GetTables: Need database name'')),
         w'\<lparr>calls := calls w' @ SQLListSchemas (database info) #
                 concat (map step_calls (glue_steps env (database info) before))\<rparr>) \<and>
      list_all is_Glue (concat (map step_calls (glue_steps env (database info) before))))"
proof (intro conjI impI)
  assume h: "rel_database sr = [] \<or> rel_schema sr = []"
  let ?m = "if rel_database sr = [] then ''Glue GetTables: Need catalog id''
            else ''Glue GetTables: Need database name''"
  from h have "retrieve_glue_tables env (rel_database sr) (rel_schema sr) =
                 [] @ Raise (RuntimeException ?m) # []"
    by (auto simp: retrieve_glue_tables_def)
  from list_relations_stops [OF this, of ?m w]
  show "list_relations_without_caching env sr w = (Inl (RuntimeException ?m), w)" by simp
next
  assume h: "list_schemas env (database info) = Inr schema_list \<and>
    target_schemas_of (str_lower env) (get_used_schemas env manifest) schema_list = before @ s # after \<and>
    passes (glue_steps env (database info) before) \<and> (database info = [] \<or> s = [])"
  let ?m = "if database info = [] then ''Glue GetTables: Need catalog id''
            else ''Glue GetTables: Need database name''"
  let ?pre = "glue_steps env (database info) before"
  from h have h1: "list_schemas env (database info) = Inr schema_list"
    and h3: "passes ?pre" by simp_all
  from h have "retrieve_glue_tables env (database info) s = [Raise (RuntimeException ?m)]"
    by (auto simp: retrieve_glue_tables_def)
  with h have h2: "glue_steps env (database info)
      (target_schemas_of (str_lower env) (get_used_schemas env manifest) schema_list) =
      ?pre @ Raise (RuntimeException ?m) # glue_steps env (database info) after"
    by (simp add: glue_steps_def)
  have e: "step_error (Raise (RuntimeException ?m)) = Some (RuntimeException ?m)" by simp
  show "get_one_catalog env info schemas manifest w' =
        (Inl (RuntimeException ?m),
         w'\<lparr>calls := calls w' @ SQLListSchemas (database info) # concat (map step_calls ?pre)\<rparr>)"
    by (rule get_one_catalog_stops [OF h1 h2 h3 e])
  show "list_all is_Glue (concat (map step_calls ?pre))" by (rule glue_steps_calls)
qed (simp_all add: retrieve_glue_tables_def)

theorem retrieve_glue_tables_needs_identifiers_witness:
  "retrieve_glue_tables ex_catalog_env [] ''s1'' =
     [Raise (RuntimeException ''Glue GetTables: Need catalog id'')] \<and>
   retrieve_glue_tables ex_catalog_env ''awsdatacatalog'' [] =
     [Raise (RuntimeException ''Glue GetTables: Need database name'')] \<and>
   list_relations_without_caching ex_catalog_env (ex_relation\<lparr>rel_schema := []\<rparr>) ex_world =
     (Inl (RuntimeException ''Glue GetTables: Need database name''), ex_world) \<and>
   get_one_catalog ex_catalog_env \<lparr>database = []\<rparr> {''s1''} () ex_world =
     (Inl (RuntimeException ''Glue GetTables: Need catalog id''),
      \<lparr>calls = [SQLListSchemas []], uuid_count = 0\<rparr>)"
  using retrieve_glue_tables_needs_identifiers
    [where catalog_id = "[]" and name = "''s1''" and env = ex_catalog_env
       and sr = "ex_relation\<lparr>rel_schema := []\<rparr>" and w = ex_world
       and info = "\<lparr>database = []\<rparr>" and schemas = "{''s1''}" and manifest = "()" and w' = ex_world
       and schema_list = "[''S1'', ''unused'', ''s2'']" and before = "[]" and s = "''S1''" and after = "[''s2'']"]
    retrieve_glue_tables_needs_identifiers
    [where catalog_id = "''awsdatacatalog''" and name = "[]" and env = ex_catalog_env]
    ex_targets
  by (simp add: ex_relation_def ex_world_def glue_steps_def
        ex_catalog_env_def [unfolded ex_env_def])

subsection \<open>The columns of a table\<close>

lemma dict_get_setitem:
  "dict_get (dict_setitem d k v) k' = (if k' = k then Some v else dict_get d k')"
  by (induction d) auto

lemma column_row_get:
  "dict_get (column_row table_row idx col) ''column_name'' = Some (PStr (col_Name col))"
  "dict_get (column_row table_row idx col) ''column_type'' = Some (PStr (col_Type col))"
  "dict_get (column_row table_row idx col) ''column_index'' = Some (PInt (int idx))"
  "dict_get (column_row table_row idx col) ''column_comment'' =
     Some (PStr (get_default (col_Comment col) []))"
  by (simp_all add: column_row_def dict_get_setitem)

lemma column_row_get_other:
  "k \<notin> {''column_name'', ''column_type'', ''column_index'', ''column_comment''} \<Longrightarrow>
   dict_get (column_row table_row idx col) k = dict_get table_row k"
  by (simp add: column_row_def dict_get_setitem)

lemma map_enumerate_snd: "map (\<lambda>x. f (snd x)) (enumerate n xs) = map f xs"
  by (induction xs arbitrary: n) simp_all

lemma map_enumerate_fst: "map (\<lambda>x. f (fst x)) (enumerate n xs) = map f [n..<n + length xs]"
  by (induction xs arbitrary: n) (simp_all add: upt_rec)

lemma column_rows_get:
  "map (\<lambda>row. dict_get row ''column_name'')
     (map (\<lambda>(idx, col). column_row table_row idx col) (enumerate 0 cs)) =
   map (\<lambda>col. Some (PStr (col_Name col))) cs"
  "map (\<lambda>row. dict_get row ''column_type'')
     (map (\<lambda>(idx, col). column_row table_row idx col) (enumerate 0 cs)) =
   map (\<lambda>col. Some (PStr (col_Type col))) cs"
  "map (\<lambda>row. dict_get row ''column_index'')
     (map (\<lambda>(idx, col). column_row table_row idx col) (enumerate 0 cs)) =
   map (\<lambda>idx. Some (PInt (int idx))) [0..<length cs]"
  using map_enumerate_snd [of "\<lambda>col. Some (PStr (col_Name col))" 0 cs]
    map_enumerate_snd [of "\<lambda>col. Some (PStr (col_Type col))" 0 cs]
    map_enumerate_fst [of "\<lambda>idx. Some (PInt (int idx))" 0 cs]
  by (simp_all add: comp_def case_prod_unfold column_row_get)

lemma relations_columns:
  "map column_information (relations_of_table sr t) =
   map (\<lambda>t. sd_Columns (tbl_StorageDescriptor t) @ tbl_PartitionKeys t)
     (if step_error (Yield t) = None then [t] else [])"
  by (simp add: relations_of_table_def relation_of_table_def split: sum.splits)

lemma passes_relations_columns:
  "passes steps \<Longrightarrow>
   map column_information (concat (map (relations_of_table sr) (concat (map step_tables steps)))) =
   map (\<lambda>t. sd_Columns (tbl_StorageDescriptor t) @ tbl_PartitionKeys t) (concat (map step_tables steps))"
proof (induction steps)
  case Nil
  then show ?case by simp
next
  case (Cons st steps)
  then show ?case
    by (cases st) (simp_all add: relations_columns del: step_error.simps(3))
qed

lemma glue_steps_Cons:
  "glue_steps env db (s # ss) = retrieve_glue_tables env db s @ glue_steps env db ss"
  by (simp add: glue_steps_def)

lemma schemas_loop_all:
  "passes (glue_steps env db ss) \<Longrightarrow>
   schemas_loop env db rows w ss =
     (Inr (rows @ catalog_rows env db ss),
      w\<lparr>calls := calls w @ concat (map step_calls (glue_steps env db ss))\<rparr>)"
proof (induction ss arbitrary: rows w)
  case Nil
  then show ?case by (simp add: glue_steps_def catalog_rows_def)
next
  case (Cons s ss)
  from Cons.prems have p: "passes (retrieve_glue_tables env db s)" "passes (glue_steps env db ss)"
    by (simp_all add: glue_steps_Cons)
  show ?case
    by (simp add: tables_loop_all [OF p(1)] Cons.IH [OF p(2)] glue_steps_Cons
          catalog_rows_def schema_rows_def)
qed

lemma get_one_catalog_all:
  assumes "list_schemas env (database info) = Inr schema_list"
    and "passes (glue_steps env (database info)
           (target_schemas_of (str_lower env) (get_used_schemas env manifest) schema_list))"
  shows "get_one_catalog env info schemas manifest w =
     (let targets = target_schemas_of (str_lower env) (get_used_schemas env manifest) schema_list;
          rows = catalog_rows env (database info) targets
      in (Inr (if rows = [] then table_from_rows env [] None None
               else catalog_filter_table env
                      (table_from_rows env (map (map snd) rows) (Some (map fst (hd rows)))
                         (Some [''table_database'', ''table_schema'', ''table_name'']))
                      manifest),
          w\<lparr>calls := calls w @ SQLListSchemas (database info) #
                  concat (map step_calls (glue_steps env (database info) targets))\<rparr>))"
  using assms
  by (simp add: get_one_catalog_def glue_catalog_def schemas_loop_all remote_def Let_def)

lemma table_row_of_explicit:
  "table_row_of db schema t rt =
     [(''table_database'', PStr db),
      (''table_schema'', PStr schema),
      (''table_name'', PStr (tbl_Name t)),
      (''table_type'', PRel rt),
      (''stats:description:label'', PStr ''description''),
      (''stats:description:value'', PStr (get_default (tbl_Description t) [])),
      (''stats:description:description'', PStr ''Table description''),
      (''stats:description:include'', PBool True),
      (''stats:owner:label'', PStr ''owner''),
      (''stats:owner:value'', PStr (get_default (tbl_Owner t) [])),
      (''stats:owner:description'', PStr ''Table owner''),
      (''stats:owner:include'', PBool True),
      (''stats:created_at:label'', PStr ''created_at''),
      (''stats:created_at:value'', PStr (get_default (tbl_CreateTime t) [])),
      (''stats:created_at:description'', PStr ''Table creation time''),
      (''stats:created_at:include'', PBool True),
      (''stats:updated_at:label'', PStr ''updated_at''),
      (''stats:updated_at:value'', PStr (get_default (tbl_UpdateTime t) [])),
      (''stats:updated_at:description'', PStr ''Table update time''),
      (''stats:updated_at:include'', PBool True),
      (''stats:created_by:label'', PStr ''created_by''),
      (''stats:created_by:value'', PStr (tbl_CreatedBy t)),
      (''stats:created_by:description'', PStr ''Who create it''),
      (''stats:created_by:include'', PBool True),
      (''stats:partitions:label'', PStr ''partitions''),
      (''stats:partitions:value'', PCols (tbl_PartitionKeys t)),
      (''stats:partitions:description'', PStr ''Partition keys''),
      (''stats:partitions:include'', PBool True),
      (''stats:location:label'', PStr ''location''),
      (''stats:location:value'', PStr (get_default (sd_Location (tbl_StorageDescriptor t)) [])),
      (''stats:location:description'', PStr ''Table path''),
      (''stats:location:include'', PBool True),
      (''stats:compressed:label'', PStr ''compressed''),
      (''stats:compressed:value'', PBool (sd_Compressed (tbl_StorageDescriptor t))),
      (''stats:compressed:description'', PStr ''Table has compressed or not''),
      (''stats:compressed:include'', PBool True)]"
  by (simp add: table_row_of_def create_stats_dict_def Let_def)


lemma dict_setitem_fresh: "k \<notin> set (map fst d) \<Longrightarrow> dict_setitem d k v = d @ [(k, v)]"
  by (induction d) auto

lemma table_row_of_keys:
  "map fst (table_row_of db schema t rt) =
     [''table_database'', ''table_schema'', ''table_name'', ''table_type'',
      ''stats:description:label'', ''stats:description:value'',
      ''stats:description:description'', ''stats:description:include'',
      ''stats:owner:label'', ''stats:owner:value'',
      ''stats:owner:description'', ''stats:owner:include'',
      ''stats:created_at:label'', ''stats:created_at:value'',
      ''stats:created_at:description'', ''stats:created_at:include'',
      ''stats:updated_at:label'', ''stats:updated_at:value'',
      ''stats:updated_at:description'', ''stats:updated_at:include'',
      ''stats:created_by:label'', ''stats:created_by:value'',
      ''stats:created_by:description'', ''stats:created_by:include'',
      ''stats:partitions:label'', ''stats:partitions:value'',
      ''stats:partitions:description'', ''stats:partitions:include'',
      ''stats:location:label'', ''stats:location:value'',
      ''stats:location:description'', ''stats:location:include'',
      ''stats:compressed:label'', ''stats:compressed:value'',
      ''stats:compressed:description'', ''stats:compressed:include'']"
  by (simp add: table_row_of_explicit)

lemma table_row_of_get:
  "dict_get (table_row_of db schema t rt) ''table_database'' = Some (PStr db)"
  "dict_get (table_row_of db schema t rt) ''table_schema'' = Some (PStr schema)"
  "dict_get (table_row_of db schema t rt) ''table_name'' = Some (PStr (tbl_Name t))"
  "dict_get (table_row_of db schema t rt) ''table_type'' = Some (PRel rt)"
  by (simp_all add: table_row_of_explicit)

lemma column_row_explicit:
  "column_row (table_row_of db schema t rt) idx col =
     table_row_of db schema t rt @
     [(''column_name'', PStr (col_Name col)),
      (''column_type'', PStr (col_Type col)),
      (''column_index'', PInt (int idx)),
      (''column_comment'', PStr (get_default (col_Comment col) []))]"
proof -
  let ?d = "table_row_of db schema t rt"
  have 1: "dict_setitem ?d ''column_name'' v = ?d @ [(''column_name'', v)]" for v
    by (rule dict_setitem_fresh) (simp add: table_row_of_keys)
  have 2: "dict_setitem (?d @ [(''column_name'', v)]) ''column_type'' v' =
             ?d @ [(''column_name'', v), (''column_type'', v')]" for v v'
    using dict_setitem_fresh [of "''column_type''" "?d @ [(''column_name'', v)]" v']
    by (simp add: table_row_of_keys)
  have 3: "dict_setitem (?d @ [(''column_name'', v), (''column_type'', v')]) ''column_index'' v'' =
             ?d @ [(''column_name'', v), (''column_type'', v'), (''column_index'', v'')]" for v v' v''
    using dict_setitem_fresh [of "''column_index''" "?d @ [(''column_name'', v), (''column_type'', v')]" v'']
    by (simp add: table_row_of_keys)
  have 4: "dict_setitem (?d @ [(''column_name'', v), (''column_type'', v'), (''column_index'', v'')])
             ''column_comment'' u =
             ?d @ [(''column_name'', v), (''column_type'', v'), (''column_index'', v''),
                   (''column_comment'', u)]" for v v' v'' u
    using dict_setitem_fresh [of "''column_comment''"
        "?d @ [(''column_name'', v), (''column_type'', v'), (''column_index'', v'')]" u]
    by (simp add: table_row_of_keys)
  show ?thesis by (simp only: column_row_def dict_update.simps 1 2 3 4)
qed


lemma rows_of_table_explicit:
  "get_rel_type_from_glue_response t = Inr rt \<Longrightarrow>
   rows_of_table db schema t =
     map (\<lambda>(idx, col). column_row (table_row_of db schema t rt) idx col)
       (enumerate 0 (sd_Columns (tbl_StorageDescriptor t) @ tbl_PartitionKeys t))"
  by (simp add: rows_of_table_def catalog_rows_of_table_def)

lemma rows_of_table_flat:
  assumes "step_error (Yield t) = None"
  shows "map (\<lambda>row. (dict_get row ''table_schema'', dict_get row ''table_name'',
                      dict_get row ''column_name'', dict_get row ''column_type'',
                      dict_get row ''column_index''))
           (rows_of_table db schema t) =
         map (\<lambda>(idx, col). (Some (PStr schema), Some (PStr (tbl_Name t)),
                              Some (PStr (col_Name col)), Some (PStr (col_Type col)),
                              Some (PInt (int idx))))
           (enumerate 0 (sd_Columns (tbl_StorageDescriptor t) @ tbl_PartitionKeys t))"
proof -
  from assms obtain rt where "get_rel_type_from_glue_response t = Inr rt"
    by (auto split: sum.splits)
  from rows_of_table_explicit [OF this] show ?thesis
    by (simp add: comp_def case_prod_unfold column_row_get column_row_get_other table_row_of_get)
qed

lemma tables_flat:
  "passes steps \<Longrightarrow>
   map (\<lambda>row. (dict_get row ''table_schema'', dict_get row ''table_name'',
                dict_get row ''column_name'', dict_get row ''column_type'',
                dict_get row ''column_index''))
     (concat (map (rows_of_table db schema) (concat (map step_tables steps)))) =
   concat (map (\<lambda>t. map (\<lambda>(idx, col). (Some (PStr schema), Some (PStr (tbl_Name t)),
                                            Some (PStr (col_Name col)), Some (PStr (col_Type col)),
                                            Some (PInt (int idx))))
                        (enumerate 0 (sd_Columns (tbl_StorageDescriptor t) @ tbl_PartitionKeys t)))
             (concat (map step_tables steps)))"
proof (induction steps)
  case Nil
  then show ?case by simp
next
  case (Cons st steps)
  show ?case
  proof (cases st)
    case (Yield t)
    with Cons.prems have "step_error (Yield t) = None" "passes steps" by simp_all
    with Yield Cons.IH rows_of_table_flat [of t db schema] show ?thesis by simp
  qed (use Cons in simp_all)
qed

lemma catalog_rows_flat:
  "passes (glue_steps env db ss) \<Longrightarrow>
   map (\<lambda>row. (dict_get row ''table_schema'', dict_get row ''table_name'',
                dict_get row ''column_name'', dict_get row ''column_type'',
                dict_get row ''column_index''))
     (catalog_rows env db ss) =
   concat (map (\<lambda>schema.
     concat (map (\<lambda>t. map (\<lambda>(idx, col). (Some (PStr schema), Some (PStr (tbl_Name t)),
                                            Some (PStr (col_Name col)), Some (PStr (col_Type col)),
                                            Some (PInt (int idx))))
                        (enumerate 0 (sd_Columns (tbl_StorageDescriptor t) @ tbl_PartitionKeys t)))
             (concat (map step_tables (retrieve_glue_tables env db schema))))) ss)"
proof (induction ss)
  case Nil
  then show ?case by (simp add: catalog_rows_def)
next
  case (Cons s ss)
  from Cons.prems have p: "passes (retrieve_glue_tables env db s)" "passes (glue_steps env db ss)"
    by (simp_all add: glue_steps_Cons)
  from Cons.IH [OF p(2)] tables_flat [OF p(1), of db s] show ?case
    by (simp add: catalog_rows_def schema_rows_def)
qed

text \<open>
  C2. The columns of the relation built for a table are its storage-descriptor columns
  followed by its partition keys, as they come; so are, table by table, the columns of
  the relations \<^verbatim>\<open>list_relations_without_caching\<close> returns when the Glue path
  runs to its end. The catalog rows built for a table are one per column of that same
  list, in its order: the fields of the table followed by the column's name, type, index
  and comment, the indices being 0, 1, 2, ... When the Glue path runs to its end,
  \<^verbatim>\<open>_get_one_catalog\<close> hands \<^verbatim>\<open>table_from_rows\<close> the values of exactly
  these rows, for the tables of the working schemas in the order they are yielded, under
  the keys of the first row, and returns the filtered table.
\<close>

theorem column_assembly:
  "(relation_of_table sr t = Inr r \<longrightarrow>
      column_information r = sd_Columns (tbl_StorageDescriptor t) @ tbl_PartitionKeys t) \<and>
   (passes (retrieve_glue_tables env (rel_database sr) (rel_schema sr)) \<longrightarrow>
      map_sum id (map column_information) (fst (list_relations_without_caching env sr w)) =
        Inr (map (\<lambda>t. sd_Columns (tbl_StorageDescriptor t) @ tbl_PartitionKeys t)
               (concat (map step_tables
                  (retrieve_glue_tables env (rel_database sr) (rel_schema sr)))))) \<and>
   (catalog_rows_of_table db schema t = Inr rows \<longrightarrow>
      map (\<lambda>row. dict_get row ''column_name'') rows =
        map (\<lambda>col. Some (PStr (col_Name col)))
          (sd_Columns (tbl_StorageDescriptor t) @ tbl_PartitionKeys t) \<and>
      map (\<lambda>row. dict_get row ''column_type'') rows =
        map (\<lambda>col. Some (PStr (col_Type col)))
          (sd_Columns (tbl_StorageDescriptor t) @ tbl_PartitionKeys t) \<and>
      map (\<lambda>row. dict_get row ''column_index'') rows =
        map (\<lambda>idx. Some (PInt (int idx)))
          [0..<length (sd_Columns (tbl_StorageDescriptor t) @ tbl_PartitionKeys t)]) \<and>
   (get_rel_type_from_glue_response t = Inr rt \<longrightarrow>
      catalog_rows_of_table db schema t =
        Inr (map (\<lambda>(idx, col).
                    table_row_of db schema t rt @
                    [(''column_name'', PStr (col_Name col)),
                     (''column_type'', PStr (col_Type col)),
                     (''column_index'', PInt (int idx)),
                     (''column_comment'', PStr (get_default (col_Comment col) []))])
               (enumerate 0 (sd_Columns (tbl_StorageDescriptor t) @ tbl_PartitionKeys t)))) \<and>
   (list_schemas env (database info) = Inr schema_list \<and>
    passes (glue_steps env (database info)
              (target_schemas_of (str_lower env) (get_used_schemas env manifest) schema_list)) \<longrightarrow>
      (let targets = target_schemas_of (str_lower env) (get_used_schemas env manifest) schema_list;
           all_rows = catalog_rows env (database info) targets
       in get_one_catalog env info schemas manifest w' =
            (Inr (if all_rows = [] then table_from_rows env [] None None
                  else catalog_filter_table env
                         (table_from_rows env (map (map snd) all_rows) (Some (map fst (hd all_rows)))
                            (Some [''table_database'', ''table_schema'', ''table_name'']))
                         manifest),
             w'\<lparr>calls := calls w' @ SQLListSchemas (database info) #
                     concat (map step_calls (glue_steps env (database info) targets))\<rparr>) \<and>
          map (\<lambda>row. (dict_get row ''table_schema'', dict_get row ''table_name'',
                       dict_get row ''column_name'', dict_get row ''column_type'',
                       dict_get row ''column_index'')) all_rows =
            concat (map (\<lambda>schema.
              concat (map (\<lambda>t. map (\<lambda>(idx, col).
                                       (Some (PStr schema), Some (PStr (tbl_Name t)),
                                        Some (PStr (col_Name col)), Some (PStr (col_Type col)),
                                        Some (PInt (int idx))))
                                 (enumerate 0
                                    (sd_Columns (tbl_StorageDescriptor t) @ tbl_PartitionKeys t)))
                      (concat (map step_tables
                                 (retrieve_glue_tables env (database info) schema))))) targets)))"
proof (intro conjI impI)
  assume "relation_of_table sr t = Inr r"
  then show "column_information r = sd_Columns (tbl_StorageDescriptor t) @ tbl_PartitionKeys t"
    by (auto simp: relation_of_table_def split: sum.splits)
next
  let ?steps = "retrieve_glue_tables env (rel_database sr) (rel_schema sr)"
  assume p: "passes ?steps"
  then show "map_sum id (map column_information) (fst (list_relations_without_caching env sr w)) =
        Inr (map (\<lambda>t. sd_Columns (tbl_StorageDescriptor t) @ tbl_PartitionKeys t)
               (concat (map step_tables ?steps)))"
    by (simp add: list_relations_without_caching_def relations_loop_all passes_relations_columns)
next
  let ?cs = "sd_Columns (tbl_StorageDescriptor t) @ tbl_PartitionKeys t"
  assume "catalog_rows_of_table db schema t = Inr rows"
  then obtain rt' where rows:
    "rows = map (\<lambda>(idx, col). column_row (table_row_of db schema t rt') idx col) (enumerate 0 ?cs)"
    by (auto simp: catalog_rows_of_table_def split: sum.splits)
  show "map (\<lambda>row. dict_get row ''column_name'') rows = map (\<lambda>col. Some (PStr (col_Name col))) ?cs"
    unfolding rows by (rule column_rows_get)
  show "map (\<lambda>row. dict_get row ''column_type'') rows = map (\<lambda>col. Some (PStr (col_Type col))) ?cs"
    unfolding rows by (rule column_rows_get)
  show "map (\<lambda>row. dict_get row ''column_index'') rows =
        map (\<lambda>idx. Some (PInt (int idx))) [0..<length ?cs]"
    unfolding rows by (rule column_rows_get)
next
  assume "get_rel_type_from_glue_response t = Inr rt"
  then show "catalog_rows_of_table db schema t =
        Inr (map (\<lambda>(idx, col).
                    table_row_of db schema t rt @
                    [(''column_name'', PStr (col_Name col)),
                     (''column_type'', PStr (col_Type col)),
                     (''column_index'', PInt (int idx)),
                     (''column_comment'', PStr (get_default (col_Comment col) []))])
               (enumerate 0 (sd_Columns (tbl_StorageDescriptor t) @ tbl_PartitionKeys t)))"
    by (simp add: catalog_rows_of_table_def column_row_explicit case_prod_unfold)
next
  assume h: "list_schemas env (database info) = Inr schema_list \<and>
    passes (glue_steps env (database info)
              (target_schemas_of (str_lower env) (get_used_schemas env manifest) schema_list))"
  then have h1: "list_schemas env (database info) = Inr schema_list"
    and h2: "passes (glue_steps env (database info)
              (target_schemas_of (str_lower env) (get_used_schemas env manifest) schema_list))"
    by simp_all
  from get_one_catalog_all [OF h1 h2, of schemas w'] catalog_rows_flat [OF h2]
  show "(let targets = target_schemas_of (str_lower env) (get_used_schemas env manifest) schema_list;
           all_rows = catalog_rows env (database info) targets
       in get_one_catalog env info schemas manifest w' =
            (Inr (if all_rows = [] then table_from_rows env [] None None
                  else catalog_filter_table env
                         (table_from_rows env (map (map snd) all_rows) (Some (map fst (hd all_rows)))
                            (Some [''table_database'', ''table_schema'', ''table_name'']))
                         manifest),
             w'\<lparr>calls := calls w' @ SQLListSchemas (database info) #
                     concat (map step_calls (glue_steps env (database info) targets))\<rparr>) \<and>
          map (\<lambda>row. (dict_get row ''table_schema'', dict_get row ''table_name'',
                       dict_get row ''column_name'', dict_get row ''column_type'',
                       dict_get row ''column_index'')) all_rows =
            concat (map (\<lambda>schema.
              concat (map (\<lambda>t. map (\<lambda>(idx, col).
                                       (Some (PStr schema), Some (PStr (tbl_Name t)),
                                        Some (PStr (col_Name col)), Some (PStr (col_Type col)),
                                        Some (PInt (int idx))))
                                 (enumerate 0
                                    (sd_Columns (tbl_StorageDescriptor t) @ tbl_PartitionKeys t)))
                      (concat (map step_tables
                                 (retrieve_glue_tables env (database info) schema))))) targets))"
    by (simp only: Let_def)
qed

lemma ex_full_targets:
  "target_schemas_of (str_lower ex_full_env) (get_used_schemas ex_full_env ())
     [''S1'', ''unused'', ''s2''] = [''S1'', ''s2'']"
  by (simp add: target_schemas_of_def ex_full_env_def ex_catalog_env_def ex_env_def lower_ex)

lemma ex_full_steps:
  "retrieve_glue_tables ex_full_env ''awsdatacatalog'' ''S1'' =
     [Remote (GlueGetTables (ex_q ''S1'')), Yield (ex_table ''t1'' ''EXTERNAL_TABLE'')]"
  "retrieve_glue_tables ex_full_env ''awsdatacatalog'' ''s2'' =
     [Remote (GlueGetTables (ex_q ''s2'')), Yield (ex_table ''v1'' ''VIRTUAL_VIEW'')]"
  by (simp_all add: retrieve_glue_tables_def ex_full_env_def ex_catalog_env_def ex_env_def
        ex_q_def Let_def)

theorem column_assembly_witness:
  "map_sum id (map column_information)
     (fst (list_relations_without_caching ex_full_env ex_relation ex_world)) =
     Inr [[ex_column ''a'', ex_column ''b'', ex_column ''p'']] \<and>
   map_sum id (map (\<lambda>row. dict_get row ''column_name''))
     (catalog_rows_of_table ''awsdatacatalog'' ''S1'' (ex_table ''t1'' ''EXTERNAL_TABLE'')) =
     Inr [Some (PStr ''a''), Some (PStr ''b''), Some (PStr ''p'')] \<and>
   map_sum id (map (\<lambda>row. dict_get row ''column_index''))
     (catalog_rows_of_table ''awsdatacatalog'' ''S1'' (ex_table ''t1'' ''EXTERNAL_TABLE'')) =
     Inr [Some (PInt 0), Some (PInt 1), Some (PInt 2)] \<and>
   fst (get_one_catalog ex_full_env ex_info {''s1'', ''s2''} () ex_world) =
     Inr (Some (map fst (hd (catalog_rows ex_full_env ''awsdatacatalog'' [''S1'', ''s2'']))),
          map (map snd) (catalog_rows ex_full_env ''awsdatacatalog'' [''S1'', ''s2''])) \<and>
   map (\<lambda>row. (dict_get row ''table_schema'', dict_get row ''table_name'',
                dict_get row ''column_name'', dict_get row ''column_type'',
                dict_get row ''column_index''))
     (catalog_rows ex_full_env ''awsdatacatalog'' [''S1'', ''s2'']) =
     [(Some (PStr ''S1''), Some (PStr ''t1''), Some (PStr ''a''), Some (PStr ''string''), Some (PInt 0)),
      (Some (PStr ''S1''), Some (PStr ''t1''), Some (PStr ''b''), Some (PStr ''string''), Some (PInt 1)),
      (Some (PStr ''S1''), Some (PStr ''t1''), Some (PStr ''p''), Some (PStr ''string''), Some (PInt 2)),
      (Some (PStr ''s2''), Some (PStr ''v1''), Some (PStr ''a''), Some (PStr ''string''), Some (PInt 0)),
      (Some (PStr ''s2''), Some (PStr ''v1''), Some (PStr ''b''), Some (PStr ''string''), Some (PInt 1)),
      (Some (PStr ''s2''), Some (PStr ''v1''), Some (PStr ''p''), Some (PStr ''string''), Some (PInt 2))]"
proof -
  define t where "t = ex_table ''t1'' ''EXTERNAL_TABLE''"
  define rows where
    "rows = map (\<lambda>(idx, col). column_row (table_row_of ''awsdatacatalog'' ''S1'' t Table) idx col)
              (enumerate 0 (sd_Columns (tbl_StorageDescriptor t) @ tbl_PartitionKeys t))"
  define all_rows where "all_rows = catalog_rows ex_full_env ''awsdatacatalog'' [''S1'', ''s2'']"
  have r: "catalog_rows_of_table ''awsdatacatalog'' ''S1'' t = Inr rows"
    by (simp add: catalog_rows_of_table_def get_rel_type_from_glue_response_def rows_def t_def
          ex_table_def)
  have cs: "sd_Columns (tbl_StorageDescriptor (ex_table n k)) @ tbl_PartitionKeys (ex_table n k) =
              [ex_column ''a'', ex_column ''b'', ex_column ''p'']" for n k
    by (simp add: ex_table_def)
  have nm: "tbl_Name (ex_table n k) = n" for n k
    by (simp add: ex_table_def)
  have col: "col_Name (ex_column n) = n" "col_Type (ex_column n) = ''string''" for n
    by (simp_all add: ex_column_def)
  have kinds: "step_error (Yield (ex_table ''t1'' ''EXTERNAL_TABLE'')) = None"
    "step_error (Yield (ex_table ''v1'' ''VIRTUAL_VIEW'')) = None"
    by (simp_all add: get_rel_type_from_glue_response_def ex_table_def)
  have p: "passes (retrieve_glue_tables ex_full_env (rel_database ex_relation) (rel_schema ex_relation))"
    using kinds by (simp add: ex_relation_def ex_full_steps del: step_error.simps(3))
  have ls: "list_schemas ex_full_env (database ex_info) = Inr [''S1'', ''unused'', ''s2'']"
    by (simp add: ex_full_env_def ex_catalog_env_def)
  have db: "database ex_info = ''awsdatacatalog''"
    by (simp add: ex_info_def)
  have pa: "passes (glue_steps ex_full_env (database ex_info)
              (target_schemas_of (str_lower ex_full_env) (get_used_schemas ex_full_env ())
                 [''S1'', ''unused'', ''s2'']))"
    using kinds by (simp add: ex_full_targets db glue_steps_def ex_full_steps del: step_error.simps(3))
  note T = column_assembly
    [where sr = ex_relation and env = ex_full_env and w = ex_world and t = t
       and db = "''awsdatacatalog''" and schema = "''S1''" and rows = rows
       and info = ex_info and schema_list = "[''S1'', ''unused'', ''s2'']" and manifest = "()"
       and schemas = "{''s1'', ''s2''}" and w' = ex_world]
  from T p have "map_sum id (map column_information)
     (fst (list_relations_without_caching ex_full_env ex_relation ex_world)) =
     Inr (map (\<lambda>t. sd_Columns (tbl_StorageDescriptor t) @ tbl_PartitionKeys t) [t])"
    by (simp add: ex_relation_def ex_full_steps t_def)
  moreover from T r have
    "map (\<lambda>row. dict_get row ''column_name'') rows =
       map (\<lambda>col. Some (PStr (col_Name col)))
         (sd_Columns (tbl_StorageDescriptor t) @ tbl_PartitionKeys t)"
    "map (\<lambda>row. dict_get row ''column_index'') rows =
        map (\<lambda>idx. Some (PInt (int idx)))
          [0..<length (sd_Columns (tbl_StorageDescriptor t) @ tbl_PartitionKeys t)]"
    by blast+
  moreover from T ls pa have flat:
    "map (\<lambda>row. (dict_get row ''table_schema'', dict_get row ''table_name'',
                dict_get row ''column_name'', dict_get row ''column_type'',
                dict_get row ''column_index'')) all_rows =
     [(Some (PStr ''S1''), Some (PStr ''t1''), Some (PStr ''a''), Some (PStr ''string''), Some (PInt 0)),
      (Some (PStr ''S1''), Some (PStr ''t1''), Some (PStr ''b''), Some (PStr ''string''), Some (PInt 1)),
      (Some (PStr ''S1''), Some (PStr ''t1''), Some (PStr ''p''), Some (PStr ''string''), Some (PInt 2)),
      (Some (PStr ''s2''), Some (PStr ''v1''), Some (PStr ''a''), Some (PStr ''string''), Some (PInt 0)),
      (Some (PStr ''s2''), Some (PStr ''v1''), Some (PStr ''b''), Some (PStr ''string''), Some (PInt 1)),
      (Some (PStr ''s2''), Some (PStr ''v1''), Some (PStr ''p''), Some (PStr ''string''), Some (PInt 2))]"
    by (simp add: Let_def ex_full_targets db ex_full_steps cs nm col all_rows_def)
  moreover from flat have ne: "all_rows \<noteq> []" by auto
  moreover have tf: "table_from_rows ex_full_env rs ns tx = (ns, rs)"
    and cf: "catalog_filter_table ex_full_env tb m = tb" for rs ns tx tb m
    by (simp_all add: ex_full_env_def ex_catalog_env_def ex_env_def)
  moreover from T ls pa ne have
    "fst (get_one_catalog ex_full_env ex_info {''s1'', ''s2''} () ex_world) =
       Inr (Some (map fst (hd all_rows)), map (map snd) all_rows)"
    by (simp add: Let_def ex_full_targets db all_rows_def [symmetric] tf cf)
  ultimately show ?thesis
    unfolding t_def [symmetric] r all_rows_def [symmetric]
    by (simp add: cs [of "''t1''" "''EXTERNAL_TABLE''", folded t_def] col upt_rec)
qed

end
